theory Spec2Isabelle
  imports Main "HOL-Library.Monad_Syntax"
begin

section \<open>Strings and paths\<close>

text \<open>
  A Python \<open>str\<close> is modelled as a \<open>string\<close> whose characters are the code points
  below 256. The library calls of \<open>photo_details.py\<close> on strings are modelled by the
  definitions of this section, each after the CPython function it is named for.
\<close>

definition is_digit :: "char \<Rightarrow> bool" where
  "is_digit c = (48 \<le> (of_char c :: nat) \<and> (of_char c :: nat) \<le> 57)"

definition digit_val :: "char \<Rightarrow> nat" where
  "digit_val c = (of_char c :: nat) - 48"

definition digit_char :: "nat \<Rightarrow> char" where
  "digit_char n = ''0123456789'' ! (n mod 10)"

text \<open>\<open>str(n)\<close> of a Python int: decimal digits, a minus sign when negative.\<close>

fun str_nat :: "nat \<Rightarrow> string" where
  "str_nat n = (if n < 10 then [digit_char n] else str_nat (n div 10) @ [digit_char (n mod 10)])"

declare str_nat.simps [simp del]

definition str_int :: "int \<Rightarrow> string" where
  "str_int i = (if i < 0 then CHR ''-'' # str_nat (nat (- i)) else str_nat (nat i))"

text \<open>\<open>str.lower()\<close>: the cased letters below code point 256 are A to Z and 0xC0 to 0xDE
  without the multiplication sign 0xD7; each has its lower-case letter 32 places later.\<close>

definition is_upper :: "char \<Rightarrow> bool" where
  "is_upper c =
     (let n = (of_char c :: nat)
      in (65 \<le> n \<and> n \<le> 90) \<or> (192 \<le> n \<and> n \<le> 222 \<and> n \<noteq> 215))"

definition lower_char :: "char \<Rightarrow> char" where
  "lower_char c = (if is_upper c then char_of ((of_char c :: nat) + 32) else c)"

definition lower :: "string \<Rightarrow> string" where
  "lower s = map lower_char s"

text \<open>\<open>str.rfind(c)\<close>: the index of the last occurrence, or \<open>-1\<close>.\<close>

definition rfind :: "char \<Rightarrow> string \<Rightarrow> int" where
  "rfind c p =
     (case filter (\<lambda>i. p ! i = c) (rev [0..<length p]) of
        [] \<Rightarrow> - 1
      | i # _ \<Rightarrow> int i)"

text \<open>\<open>os.path.splitext\<close> (posixpath): the extension starts at the last dot of the last
  path component, unless that component has only dots before it.\<close>

definition splitext :: "string \<Rightarrow> string \<times> string" where
  "splitext p =
     (let sepIndex = rfind CHR ''/'' p;
          dotIndex = rfind CHR ''.'' p
      in if dotIndex > sepIndex \<and>
            list_ex (\<lambda>i. p ! i \<noteq> CHR ''.'') [nat (sepIndex + 1)..<nat dotIndex]
         then (take (nat dotIndex) p, drop (nat dotIndex) p)
         else (p, ''''))"

text \<open>\<open>os.path.join(a, b)\<close> (posixpath).\<close>

definition path_join :: "string \<Rightarrow> string \<Rightarrow> string" where
  "path_join a b =
     (if b \<noteq> [] \<and> hd b = CHR ''/'' then b
      else if a = [] \<or> last a = CHR ''/'' then a @ b
      else a @ ''/'' @ b)"

text \<open>\<open>os.path.basename\<close> (posixpath).\<close>

definition basename :: "string \<Rightarrow> string" where
  "basename p = drop (nat (rfind CHR ''/'' p + 1)) p"

section \<open>Dates\<close>

record datetime =
  year :: nat
  month :: nat
  day :: nat
  hour :: nat
  minute :: nat
  second :: nat

definition is_leap :: "nat \<Rightarrow> bool" where
  "is_leap y = (y mod 4 = 0 \<and> (y mod 100 \<noteq> 0 \<or> y mod 400 = 0))"

definition days_in_month :: "nat \<Rightarrow> nat \<Rightarrow> nat" where
  "days_in_month y m =
     (if m = 2 then (if is_leap y then 29 else 28)
      else if m \<in> {4, 6, 9, 11} then 30 else 31)"

text \<open>The checks of the \<open>datetime\<close> constructor; it raises \<open>ValueError\<close> when one fails.\<close>

definition valid_datetime :: "datetime \<Rightarrow> bool" where
  "valid_datetime dt =
     (1 \<le> year dt \<and> year dt \<le> 9999 \<and> 1 \<le> month dt \<and> month dt \<le> 12 \<and>
      1 \<le> day dt \<and> day dt \<le> days_in_month (year dt) (month dt) \<and>
      hour dt \<le> 23 \<and> minute dt \<le> 59 \<and> second dt \<le> 59)"

text \<open>
  \<open>datetime.strptime(s, '%Y:%m:%d %H:%M:%S')\<close>, after the regular expressions of
  CPython's \<open>_strptime\<close>: \<open>%Y\<close> is four digits; the other fields are two digits in
  their range or one digit; \<open>%d\<close> may also be a space and a digit; the blank of the
  format matches one or more white-space characters; nothing may follow the seconds.
  \<open>None\<close> stands for the \<open>ValueError\<close> raised.
\<close>

definition is_space :: "char \<Rightarrow> bool" where
  "is_space c = ((of_char c :: nat) \<in> {9, 10, 11, 12, 13, 28, 29, 30, 31, 32, 133, 160})"

fun year_field :: "string \<Rightarrow> (nat \<times> string) option" where
  "year_field (a # b # c # d # rest) =
     (if is_digit a \<and> is_digit b \<and> is_digit c \<and> is_digit d
      then Some (1000 * digit_val a + 100 * digit_val b + 10 * digit_val c + digit_val d, rest)
      else None)"
| "year_field _ = None"

fun num_field :: "(nat \<Rightarrow> bool) \<Rightarrow> (nat \<Rightarrow> bool) \<Rightarrow> string \<Rightarrow> (nat \<times> string) option" where
  "num_field two one [] = None"
| "num_field two one [a] =
     (if is_digit a \<and> one (digit_val a) then Some (digit_val a, []) else None)"
| "num_field two one (a # b # rest) =
     (if is_digit a \<and> is_digit b \<and> two (10 * digit_val a + digit_val b)
      then Some (10 * digit_val a + digit_val b, rest)
      else if is_digit a \<and> one (digit_val a) then Some (digit_val a, b # rest)
      else None)"

fun day_field :: "string \<Rightarrow> (nat \<times> string) option" where
  "day_field s =
     (case num_field (\<lambda>n. 1 \<le> n \<and> n \<le> 31) (\<lambda>n. 1 \<le> n) s of
        Some r \<Rightarrow> Some r
      | None \<Rightarrow>
         (case s of
            a # b # rest \<Rightarrow>
              if a = CHR '' '' \<and> is_digit b \<and> 1 \<le> digit_val b
              then Some (digit_val b, rest) else None
          | _ \<Rightarrow> None))"

fun literal :: "char \<Rightarrow> string \<Rightarrow> string option" where
  "literal c [] = None"
| "literal c (a # rest) = (if a = c then Some rest else None)"

fun spaces :: "string \<Rightarrow> string option" where
  "spaces [] = None"
| "spaces (a # rest) = (if is_space a then Some (dropWhile is_space rest) else None)"

definition strptime :: "string \<Rightarrow> datetime option" where
  "strptime s =
     do {
       (y, r1) \<leftarrow> year_field s;
       r2 \<leftarrow> literal CHR '':'' r1;
       (m, r3) \<leftarrow> num_field (\<lambda>n. 1 \<le> n \<and> n \<le> 12) (\<lambda>n. 1 \<le> n) r2;
       r4 \<leftarrow> literal CHR '':'' r3;
       (d, r5) \<leftarrow> day_field r4;
       r6 \<leftarrow> spaces r5;
       (H, r7) \<leftarrow> num_field (\<lambda>n. n \<le> 23) (\<lambda>n. True) r6;
       r8 \<leftarrow> literal CHR '':'' r7;
       (M, r9) \<leftarrow> num_field (\<lambda>n. n \<le> 59) (\<lambda>n. True) r8;
       r10 \<leftarrow> literal CHR '':'' r9;
       (S, r11) \<leftarrow> num_field (\<lambda>n. n \<le> 61) (\<lambda>n. True) r10;
       let dt = \<lparr>year = y, month = m, day = d, hour = H, minute = M, second = S\<rparr>;
       if r11 = [] \<and> valid_datetime dt then Some dt else None
     }"

text \<open>\<open>strftime\<close>, as the Python documentation gives it: \<open>%Y\<close> is the year in four
  digits (0001 to 9999), the other fields in two, padded with zeros.\<close>

definition zpad :: "nat \<Rightarrow> string \<Rightarrow> string" where
  "zpad w s = replicate (w - length s) CHR ''0'' @ s"

definition strftime_ymd :: "datetime \<Rightarrow> string" where
  \<comment> \<open>\<open>strftime('%Y-%m-%d')\<close>\<close>
  "strftime_ymd dt =
     zpad 4 (str_nat (year dt)) @ ''-'' @ zpad 2 (str_nat (month dt)) @ ''-'' @
     zpad 2 (str_nat (day dt))"

definition strftime_full :: "datetime \<Rightarrow> string" where
  \<comment> \<open>\<open>strftime('%Y:%m:%d %H:%M:%S')\<close>\<close>
  "strftime_full dt =
     zpad 4 (str_nat (year dt)) @ '':'' @ zpad 2 (str_nat (month dt)) @ '':'' @
     zpad 2 (str_nat (day dt)) @ '' '' @ zpad 2 (str_nat (hour dt)) @ '':'' @
     zpad 2 (str_nat (minute dt)) @ '':'' @ zpad 2 (str_nat (second dt))"

section \<open>The collaborators of \<open>photo_details.py\<close>\<close>

text \<open>An exception caught by \<open>except Exception\<close>. \<open>Raised\<close> carries the message of
  an exception that a library call raised.\<close>

datatype exn = ValueError | UnboundLocalError | Raised string

text \<open>An entry of the dictionary \<open>image_hashes\<close>.\<close>

record entry =
  file_path :: string
  duplicate_count :: int

text \<open>The value under \<open>'creation_time'\<close> in \<open>clip.reader.infos\<close>.\<close>

datatype info = InfoDatetime datetime | InfoOther

text \<open>
  What the script reads from outside itself:
  \<^item> \<open>getexif p\<close>: \<open>Image.open(p)\<close> followed by \<open>img._getexif()\<close>, the tag numbers and
    values in the order of \<open>items()\<close>, \<open>None\<close> for Python's \<open>None\<close>, \<open>Inl\<close> when either
    call raises; a tag value is taken to be a string, as the EXIF date tags are;
  \<^item> \<open>TAGS\<close>: the table \<open>PIL.ExifTags.TAGS\<close>;
  \<^item> \<open>creation_time p\<close>: \<open>VideoFileClip(p).reader.infos\<close> at \<open>'creation_time'\<close>,
    \<open>None\<close> when the key is absent, \<open>Inl\<close> when the clip cannot be read;
  \<^item> \<open>average_hash p\<close>: \<open>str(imagehash.average_hash(img))\<close> of the image opened from
    \<open>p\<close>, \<open>Inl\<close> when the image cannot be opened or decoded;
  \<^item> \<open>uuid4 k\<close>: the string of the \<open>k\<close>-th \<open>uuid.uuid4()\<close> of the run;
  \<^item> \<open>copy2 src dst\<close>: the exception of \<open>shutil.copy2(src, dst)\<close>, \<open>None\<close> when it
    succeeds;
  \<^item> \<open>makedirs d\<close>: the exception of \<open>os.makedirs(d, exist_ok=True)\<close>, if any.
\<close>

record env =
  getexif :: "string \<Rightarrow> exn + (nat \<times> string) list option"
  TAGS :: "nat \<rightharpoonup> string"
  creation_time :: "string \<Rightarrow> exn + info option"
  average_hash :: "string \<Rightarrow> exn + string"
  uuid4 :: "nat \<Rightarrow> string"
  copy2 :: "string \<Rightarrow> string \<Rightarrow> exn option"
  makedirs :: "string \<Rightarrow> exn option"

text \<open>What the script does to the outside: each \<open>print\<close> with its arguments, and each
  file copied or directory made.\<close>

datatype event =
    MetadataError string exn
      \<comment> \<open>\<open>print(f"Error reading metadata for {file_path}: {e}")\<close>\<close>
  | DuplicateDetected string entry
      \<comment> \<open>\<open>print(f"Duplicate image detected: {file_path} is a duplicate of {image_hashes[img_hash]}")\<close>\<close>
  | Copy2 string string
      \<comment> \<open>\<open>shutil.copy2(src, dst)\<close> done\<close>
  | DuplicateCopied string
      \<comment> \<open>\<open>print(f"Duplicate copied to: {duplicate_file_path}")\<close>\<close>
  | FileCopied string string string string
      \<comment> \<open>\<open>print(f"File: {basename}, Date Taken: {date_taken}, Unique ID: {unique_id}, Copied to: {new_file_path}")\<close>\<close>
  | ProcessError string exn
      \<comment> \<open>\<open>print(f"Error processing {file_path}: {e}")\<close>\<close>
  | Makedirs string
      \<comment> \<open>\<open>os.makedirs(d, exist_ok=True)\<close> done\<close>

text \<open>The state shared by the calls of \<open>process_file\<close>: the dictionary \<open>image_hashes\<close>
  and the number of \<open>uuid.uuid4()\<close> calls made so far.\<close>

record state =
  image_hashes :: "string \<rightharpoonup> entry"
  uuid_calls :: nat

section \<open>Metadata\<close>

text \<open>The dictionary \<open>{TAGS.get(tag, tag): value for tag, value in exif_data.items()}\<close>:
  a key is the tag's name, or the tag's number when \<open>TAGS\<close> has no name for it; a later
  item replaces an earlier one under the same key.\<close>

definition exif_dict :: "(nat \<rightharpoonup> string) \<Rightarrow> (nat \<times> string) list \<Rightarrow> (string + nat \<rightharpoonup> string)" where
  "exif_dict tags exif_data =
     map_of (rev (map (\<lambda>(tag, value).
       ((case tags tag of Some name \<Rightarrow> Inl name | None \<Rightarrow> Inr tag), value)) exif_data))"

definition get_image_metadata :: "env \<Rightarrow> string \<Rightarrow> event list \<times> string" where
  "get_image_metadata e path =
     (case getexif e path of
        Inl err \<Rightarrow> ([MetadataError path err], ''Unknown'')
      | Inr exif_data \<Rightarrow>
         (case exif_data of
            None \<Rightarrow> ([], ''Unknown'')
          | Some items \<Rightarrow>
              if items \<noteq> [] then
                (let exif = exif_dict (TAGS e) items;
                     date_taken = (case exif (Inl ''DateTimeOriginal'') of
                                     Some v \<Rightarrow> v | None \<Rightarrow> ''Unknown'')
                 in ([], date_taken))
              else ([], ''Unknown'')))"

definition get_video_metadata :: "env \<Rightarrow> string \<Rightarrow> event list \<times> string" where
  "get_video_metadata e path =
     (case creation_time e path of
        Inl err \<Rightarrow> ([MetadataError path err], ''Unknown'')
      | Inr None \<Rightarrow> ([], ''Unknown'')
      | Inr (Some (InfoDatetime dt)) \<Rightarrow> ([], strftime_full dt)
      | Inr (Some InfoOther) \<Rightarrow> ([], ''Unknown''))"

section \<open>Processing one file\<close>

text \<open>Lines 52 to 55 and 72 to 75: the date of the file name. \<open>None\<close> stands for the
  \<open>ValueError\<close> of \<open>strptime\<close>.\<close>

definition format_date :: "string \<Rightarrow> string option" where
  "format_date date_taken =
     (if date_taken \<noteq> ''Unknown'' then map_option strftime_ymd (strptime date_taken)
      else Some ''unknown'')"

text \<open>Lines 71 to 86, which a first-seen image and a video share. \<open>img_hash\<close> is \<open>None\<close>
  where the variable is not bound.\<close>

definition copy_new ::
  "env \<Rightarrow> string \<Rightarrow> string \<Rightarrow> string list \<Rightarrow> string list \<Rightarrow> event list \<Rightarrow> string \<Rightarrow>
   string \<Rightarrow> string option \<Rightarrow> state \<Rightarrow> event list \<times> state" where
  "copy_new e path ext image_extensions video_extensions evs date_taken output_subdir img_hash st =
     (let unique_id = uuid4 e (uuid_calls st);
          st1 = st\<lparr>uuid_calls := uuid_calls st + 1\<rparr>
      in case format_date date_taken of
           None \<Rightarrow> (evs @ [ProcessError path ValueError], st1)
         | Some date_taken_formatted \<Rightarrow>
            (case (if ext \<in> set image_extensions
                   then map_option (\<lambda>h. date_taken_formatted @ ''-'' @ h @ ext) img_hash
                   else if ext \<in> set video_extensions
                   then Some (date_taken_formatted @ ''-'' @ unique_id @ ext)
                   else None) of
               None \<Rightarrow> (evs @ [ProcessError path UnboundLocalError], st1)
             | Some new_file_name \<Rightarrow>
                (let new_file_path = path_join output_subdir new_file_name
                 in case copy2 e path new_file_path of
                      Some err \<Rightarrow> (evs @ [ProcessError path err], st1)
                    | None \<Rightarrow>
                        (evs @ [Copy2 path new_file_path,
                                FileCopied (basename path) date_taken unique_id new_file_path],
                         st1))))"

text \<open>\<open>process_file\<close>: the events of the call and the state after it. Every exception is
  caught by the handler of line 87, which prints it; what was stored before stays stored.\<close>

definition process_file ::
  "env \<Rightarrow> string \<Rightarrow> string \<Rightarrow> string list \<Rightarrow> string list \<Rightarrow> string \<Rightarrow> string \<Rightarrow>
   state \<Rightarrow> event list \<times> state" where
  "process_file e path ext image_extensions video_extensions images_output_dir videos_output_dir st =
     (if ext \<in> set image_extensions then
        (let (evs, date_taken) = get_image_metadata e path;
             output_subdir = images_output_dir
         in case average_hash e path of
              Inl err \<Rightarrow> (evs @ [ProcessError path err], st)
            | Inr img_hash \<Rightarrow>
               (case image_hashes st img_hash of
                  Some found \<Rightarrow>
                    (let evs1 = evs @ [DuplicateDetected path found];
                         count = duplicate_count found;
                         st1 = st\<lparr>image_hashes := (image_hashes st)
                                 (img_hash \<mapsto> found\<lparr>duplicate_count := duplicate_count found + 1\<rparr>)\<rparr>
                     in case format_date date_taken of
                          None \<Rightarrow> (evs1 @ [ProcessError path ValueError], st1)
                        | Some date_taken_formatted \<Rightarrow>
                           (let new_file_name = date_taken_formatted @ ''-'' @ img_hash @
                                  ''_duplicate_'' @ str_int count @ ext;
                                duplicate_file_path = path_join output_subdir new_file_name
                            in case copy2 e path duplicate_file_path of
                                 Some err \<Rightarrow> (evs1 @ [ProcessError path err], st1)
                               | None \<Rightarrow>
                                   (evs1 @ [Copy2 path duplicate_file_path,
                                            DuplicateCopied duplicate_file_path], st1)))
                | None \<Rightarrow>
                    copy_new e path ext image_extensions video_extensions evs date_taken
                      output_subdir (Some img_hash)
                      (st\<lparr>image_hashes := (image_hashes st)
                          (img_hash \<mapsto> \<lparr>file_path = path, duplicate_count = 1\<rparr>)\<rparr>)))
      else if ext \<in> set video_extensions then
        (let (evs, date_taken) = get_video_metadata e path;
             output_subdir = videos_output_dir
         in copy_new e path ext image_extensions video_extensions evs date_taken
              output_subdir None st)
      else ([], st))"

section \<open>Processing a directory tree\<close>

definition image_extensions :: "string list" where
  "image_extensions = [''.jpg'', ''.jpeg'', ''.png'', ''.gif'', ''.bmp'', ''.tiff'']"

definition video_extensions :: "string list" where
  "video_extensions = [''.mp4'', ''.avi'', ''.mov'', ''.mkv'']"

text \<open>Lines 103 to 107: the work list, from the triples \<open>(subdir, dirs, files)\<close> of
  \<open>os.walk\<close>.\<close>

definition file_ext :: "string \<Rightarrow> string" where
  \<comment> \<open>line 106: \<open>os.path.splitext(file)[1].lower()\<close>\<close>
  "file_ext file = lower (snd (splitext file))"

definition file_paths :: "(string \<times> string list \<times> string list) list \<Rightarrow> (string \<times> string) list" where
  "file_paths walk =
     concat (map (\<lambda>(subdir, dirs, files).
       map (\<lambda>file. (path_join subdir file, file_ext file)) files) walk)"

text \<open>Lines 109 to 112 under the schedule in which the pool runs the submitted calls one
  after the other, in the order of submission.\<close>

fun run_items ::
  "env \<Rightarrow> string list \<Rightarrow> string list \<Rightarrow> string \<Rightarrow> string \<Rightarrow> (string \<times> string) list \<Rightarrow>
   state \<Rightarrow> event list \<times> state" where
  "run_items e ie ve idir vdir [] st = ([], st)"
| "run_items e ie ve idir vdir ((path, ext) # rest) st =
     (let (evs, st1) = process_file e path ext ie ve idir vdir st;
          (evs', st2) = run_items e ie ve idir vdir rest st1
      in (evs @ evs', st2))"

definition process_files ::
  "env \<Rightarrow> (string \<times> string list \<times> string list) list \<Rightarrow> string \<Rightarrow> exn + event list \<times> state" where
  "process_files e walk output_dir =
     (let images_output_dir = path_join output_dir ''images'';
          videos_output_dir = path_join output_dir ''videos''
      in case makedirs e images_output_dir of
           Some err \<Rightarrow> Inl err
         | None \<Rightarrow>
            (case makedirs e videos_output_dir of
               Some err \<Rightarrow> Inl err
             | None \<Rightarrow>
                (let (evs, st) = run_items e image_extensions video_extensions
                       images_output_dir videos_output_dir (file_paths walk)
                       \<lparr>image_hashes = Map.empty, uuid_calls = 0\<rparr>
                 in Inr ([Makedirs images_output_dir, Makedirs videos_output_dir] @ evs, st))))"

section \<open>Observations on a run\<close>

text \<open>The copies made, as pairs of source and destination, in order.\<close>

fun copies :: "event list \<Rightarrow> (string \<times> string) list" where
  "copies [] = []"
| "copies (Copy2 src dst # evs) = (src, dst) # copies evs"
| "copies (_ # evs) = copies evs"


text \<open>The items reported as failed by the handler of line 87.\<close>

fun failures :: "event list \<Rightarrow> string list" where
  "failures [] = []"
| "failures (ProcessError p err # evs) = p # failures evs"
| "failures (_ # evs) = failures evs"




text \<open>The inputs of the placement, as \<open>process_file\<close> has them when it builds the name:
  whether the item is an image, the timestamp read, the fingerprint or the identifier
  drawn, the count of the entry found if there is one, and the extension.\<close>

definition placement_inputs ::
  "env \<Rightarrow> string \<Rightarrow> string \<Rightarrow> string list \<Rightarrow> string list \<Rightarrow> state \<Rightarrow>
   (bool \<times> string \<times> string \<times> int option \<times> string) option" where
  "placement_inputs e path ext ie ve st =
     (if ext \<in> set ie then
        (case average_hash e path of
           Inl err \<Rightarrow> None
         | Inr h \<Rightarrow> Some (True, snd (get_image_metadata e path), h,
                          map_option duplicate_count (image_hashes st h), ext))
      else if ext \<in> set ve then
        Some (False, snd (get_video_metadata e path), uuid4 e (uuid_calls st), None, ext)
      else None)"

section \<open>A sample tree\<close>

text \<open>Two JPEG files of the same picture taken on 1 May 2023 (\<open>a.jpg\<close>, \<open>b.JPG\<close>), a third
  copy stamped an hour later (\<open>c.jpg\<close>), a copy without EXIF data (\<open>d.jpg\<close>), a copy whose
  camera clock was never set (\<open>e.jpg\<close>), a file that is not an image (\<open>bad.jpg\<close>), a video
  with a creation time (\<open>w.mov\<close>), a video without (\<open>v.MP4\<close>) and a text file.\<close>

definition sample_env :: env where
  "sample_env =
     \<lparr>getexif = (\<lambda>p.
         if p = ''in/a.jpg'' \<or> p = ''in/b.JPG''
         then Inr (Some [(271, ''Canon''), (36867, ''2023:05:01 10:00:00'')])
         else if p = ''in/c.jpg''
         then Inr (Some [(271, ''Canon''), (36867, ''2023:05:01 11:00:00'')])
         else if p = ''in/e.jpg''
         then Inr (Some [(36867, ''0000:00:00 00:00:00'')])
         else if p = ''in/bad.jpg'' then Inl (Raised ''cannot identify image file'')
         else Inr None),
       TAGS = [271 \<mapsto> ''Make'', 36867 \<mapsto> ''DateTimeOriginal''],
       creation_time = (\<lambda>p.
         if p = ''in/w.mov''
         then Inr (Some (InfoDatetime
                \<lparr>year = 2021, month = 12, day = 31, hour = 23, minute = 59, second = 58\<rparr>))
         else Inr None),
       average_hash = (\<lambda>p.
         if p = ''in/bad.jpg'' then Inl (Raised ''cannot identify image file'')
         else Inr ''ffff0000ffff0000''),
       uuid4 = (\<lambda>k. ''uuid-'' @ str_nat k),
       copy2 = (\<lambda>src dst. None),
       makedirs = (\<lambda>d. None)\<rparr>"

definition sample_state :: state where
  "sample_state = \<lparr>image_hashes = Map.empty, uuid_calls = 0\<rparr>"


text \<open>The state after \<open>a.jpg\<close> has been processed, and a work list of three copies of
  the picture.\<close>

definition sample_seen :: state where
  "sample_seen =
     \<lparr>image_hashes = [''ffff0000ffff0000'' \<mapsto> \<lparr>file_path = ''in/a.jpg'', duplicate_count = 1\<rparr>],
      uuid_calls = 1\<rparr>"


section \<open>Facts about the observations\<close>

lemma copies_append: "copies (xs @ ys) = copies xs @ copies ys"
  by (induction xs rule: copies.induct) simp_all


lemma failures_append: "failures (xs @ ys) = failures xs @ failures ys"
  by (induction xs rule: failures.induct) simp_all

lemma get_image_metadata_events:
  "fst (get_image_metadata e p) = [] \<or>
   (\<exists>err. fst (get_image_metadata e p) = [MetadataError p err])"
  by (simp add: get_image_metadata_def Let_def split: sum.splits option.splits)

lemma get_video_metadata_events:
  "fst (get_video_metadata e p) = [] \<or>
   (\<exists>err. fst (get_video_metadata e p) = [MetadataError p err])"
  by (simp add: get_video_metadata_def split: sum.splits option.splits info.splits)

lemma copies_image_metadata: "copies (fst (get_image_metadata e p)) = []"
  using get_image_metadata_events [of e p] by auto

lemma copies_video_metadata: "copies (fst (get_video_metadata e p)) = []"
  using get_video_metadata_events [of e p] by auto


lemma failures_image_metadata: "failures (fst (get_image_metadata e p)) = []"
  using get_image_metadata_events [of e p] by auto

lemma get_video_metadata_average_hash:
  "get_video_metadata (e\<lparr>average_hash := f\<rparr>) p = get_video_metadata e p"
  by (simp add: get_video_metadata_def)

lemma copy_new_average_hash:
  "copy_new (e\<lparr>average_hash := f\<rparr>) p ext ie ve evs dt sub h st =
   copy_new e p ext ie ve evs dt sub h st"
  by (simp add: copy_new_def Let_def split: option.splits)

section \<open>Facts about dates\<close>



















section \<open>Facts about \<open>process_file\<close>\<close>

lemma process_file_image_copies:
  assumes "ext \<in> set ie"
    and "(src, dst) \<in> set (copies (fst (process_file e path ext ie ve idir vdir st)))"
  shows "src = path \<and>
         (\<exists>h d. average_hash e path = Inr h \<and>
                format_date (snd (get_image_metadata e path)) = Some d \<and>
                dst = path_join idir (d @ ''-'' @ h @
                  (case image_hashes st h of None \<Rightarrow> []
                   | Some found \<Rightarrow> ''_duplicate_'' @ str_int (duplicate_count found)) @ ext))"
  using assms
  by (auto simp: process_file_def copy_new_def Let_def split_beta copies_append
      copies_image_metadata split: sum.splits option.splits if_splits)

lemma process_file_video_copies:
  assumes "ext \<notin> set ie"
    and "(src, dst) \<in> set (copies (fst (process_file e path ext ie ve idir vdir st)))"
  shows "src = path \<and> ext \<in> set ve \<and>
         (\<exists>d. format_date (snd (get_video_metadata e path)) = Some d \<and>
              dst = path_join vdir (d @ ''-'' @ uuid4 e (uuid_calls st) @ ext))"
  using assms
  by (auto simp: process_file_def copy_new_def Let_def split_beta copies_append
      copies_video_metadata split: sum.splits option.splits if_splits)









section \<open>The sample tree, evaluated\<close>

lemma strptime_sample_10:
  "strptime ''2023:05:01 10:00:00'' =
     Some \<lparr>year = 2023, month = 5, day = 1, hour = 10, minute = 0, second = 0\<rparr>"
  by (simp add: strptime_def is_digit_def digit_val_def is_space_def valid_datetime_def
      days_in_month_def)

lemma strptime_sample_11:
  "strptime ''2023:05:01 11:00:00'' =
     Some \<lparr>year = 2023, month = 5, day = 1, hour = 11, minute = 0, second = 0\<rparr>"
  by (simp add: strptime_def is_digit_def digit_val_def is_space_def valid_datetime_def
      days_in_month_def)

lemma strptime_sample_zero: "strptime ''0000:00:00 00:00:00'' = None"
  by (simp add: strptime_def is_digit_def digit_val_def is_space_def valid_datetime_def
      days_in_month_def)

lemma strftime_sample:
  "strftime_ymd \<lparr>year = 2023, month = 5, day = 1, hour = H, minute = M, second = S\<rparr> = ''2023-05-01''"
  by (simp add: strftime_ymd_def zpad_def str_nat.simps digit_char_def)

lemma format_date_sample:
  "format_date ''2023:05:01 10:00:00'' = Some ''2023-05-01''"
  "format_date ''2023:05:01 11:00:00'' = Some ''2023-05-01''"
  "format_date ''0000:00:00 00:00:00'' = None"
  "format_date ''Unknown'' = Some ''unknown''"
  by (simp_all add: format_date_def strptime_sample_10 strptime_sample_11 strptime_sample_zero
      strftime_ymd_def zpad_def str_nat.simps digit_char_def)

lemma metadata_sample:
  "get_image_metadata sample_env ''in/a.jpg'' = ([], ''2023:05:01 10:00:00'')"
  "get_image_metadata sample_env ''in/b.JPG'' = ([], ''2023:05:01 10:00:00'')"
  "get_image_metadata sample_env ''in/c.jpg'' = ([], ''2023:05:01 11:00:00'')"
  "get_image_metadata sample_env ''in/d.jpg'' = ([], ''Unknown'')"
  "get_image_metadata sample_env ''in/e.jpg'' = ([], ''0000:00:00 00:00:00'')"
  "get_image_metadata sample_env ''in/bad.jpg'' =
     ([MetadataError ''in/bad.jpg'' (Raised ''cannot identify image file'')], ''Unknown'')"
  by (simp_all add: get_image_metadata_def sample_env_def exif_dict_def)

lemma hash_sample:
  "average_hash sample_env ''in/a.jpg'' = Inr ''ffff0000ffff0000''"
  "average_hash sample_env ''in/b.JPG'' = Inr ''ffff0000ffff0000''"
  "average_hash sample_env ''in/c.jpg'' = Inr ''ffff0000ffff0000''"
  "copy2 sample_env src dst = None"
  by (simp_all add: sample_env_def)

lemma jpg_image: "''.jpg'' \<in> set image_extensions"
  by (simp add: image_extensions_def)


lemma process_sample_a:
  "process_file sample_env ''in/a.jpg'' ''.jpg'' image_extensions video_extensions
     ''out/images'' ''out/videos'' sample_state =
   ([Copy2 ''in/a.jpg'' ''out/images/2023-05-01-ffff0000ffff0000.jpg'',
     FileCopied ''a.jpg'' ''2023:05:01 10:00:00'' ''uuid-0''
       ''out/images/2023-05-01-ffff0000ffff0000.jpg''], sample_seen)"
  by (simp add: process_file_def copy_new_def jpg_image metadata_sample hash_sample
      format_date_sample sample_state_def sample_seen_def path_join_def basename_def rfind_def
      Let_def)
     (simp add: sample_env_def str_nat.simps digit_char_def)




section \<open>Files that are neither image nor video\<close>

text \<open>
  Claim C7. For a file whose extension is in neither extension list, \<open>process_file\<close>
  does nothing: it prints nothing (so no failure is reported), copies nothing, and leaves
  the dictionary of hashes and the identifier count as they were. The result does not
  mention the collaborators, so neither the fingerprinter nor any other of them is used.
\<close>

theorem ignored_extension_no_action:
  "ext \<notin> set ie \<Longrightarrow> ext \<notin> set ve \<Longrightarrow>
   process_file e path ext ie ve idir vdir st = ([], st)"
  by (simp add: process_file_def)

theorem ignored_extension_no_action_witness:
  "file_ext ''notes.txt'' \<notin> set image_extensions \<and>
   file_ext ''notes.txt'' \<notin> set video_extensions \<and>
   process_file sample_env ''in/notes.txt'' (file_ext ''notes.txt'')
     image_extensions video_extensions ''out/images'' ''out/videos'' sample_state =
   ([], sample_state)"
proof -
  have x: "file_ext ''notes.txt'' = ''.txt''"
    by code_simp
  have a: "file_ext ''notes.txt'' \<notin> set image_extensions"
    unfolding x by (simp add: image_extensions_def)
  have b: "file_ext ''notes.txt'' \<notin> set video_extensions"
    unfolding x by (simp add: video_extensions_def)
  show ?thesis
    using a b ignored_extension_no_action [OF a b] by simp
qed

section \<open>Images that cannot be decoded\<close>

text \<open>
  Claim C5. When the image of an image item cannot be opened or decoded for the hash,
  the item fails and the failure is printed: the events of the call are those of the
  metadata reader followed by the error report, no file is copied, the item is the one
  reported as failed, and the state is unchanged, so the item is not stored as a
  first-seen image.
\<close>

theorem decode_failure_reported_not_copied:
  assumes "ext \<in> set ie" and "average_hash e path = Inl err"
  shows "process_file e path ext ie ve idir vdir st =
           (fst (get_image_metadata e path) @ [ProcessError path err], st) \<and>
         copies (fst (process_file e path ext ie ve idir vdir st)) = [] \<and>
         failures (fst (process_file e path ext ie ve idir vdir st)) = [path]"
  using assms
  by (simp add: process_file_def split_beta copies_append failures_append
       copies_image_metadata failures_image_metadata)

theorem decode_failure_reported_not_copied_witness:
  "''.jpg'' \<in> set image_extensions \<and>
   average_hash sample_env ''in/bad.jpg'' = Inl (Raised ''cannot identify image file'') \<and>
   process_file sample_env ''in/bad.jpg'' ''.jpg'' image_extensions video_extensions
     ''out/images'' ''out/videos'' sample_state =
   ([MetadataError ''in/bad.jpg'' (Raised ''cannot identify image file''),
     ProcessError ''in/bad.jpg'' (Raised ''cannot identify image file'')], sample_state)"
proof -
  have a: "''.jpg'' \<in> set image_extensions"
    by (simp add: image_extensions_def)
  have b: "average_hash sample_env ''in/bad.jpg'' = Inl (Raised ''cannot identify image file'')"
    by (simp add: sample_env_def)
  have c: "get_image_metadata sample_env ''in/bad.jpg'' =
             ([MetadataError ''in/bad.jpg'' (Raised ''cannot identify image file'')], ''Unknown'')"
    by (simp add: get_image_metadata_def sample_env_def)
  show ?thesis
    using a b decode_failure_reported_not_copied [OF a b, of video_extensions
        "''out/images''" "''out/videos''" sample_state]
    by (simp add: c)
qed

section \<open>Videos are not fingerprinted\<close>

text \<open>
  Claim C6. For an item whose extension is not an image extension, and so for every
  video, what \<open>process_file\<close> prints, copies and stores is the same whatever the
  fingerprinter would return or raise: the fingerprint is computed for images only.
\<close>

theorem video_never_fingerprinted:
  "ext \<notin> set ie \<Longrightarrow>
   process_file (e\<lparr>average_hash := f\<rparr>) path ext ie ve idir vdir st =
   process_file (e\<lparr>average_hash := g\<rparr>) path ext ie ve idir vdir st"
  by (simp add: process_file_def get_video_metadata_average_hash copy_new_average_hash)

theorem video_never_fingerprinted_witness:
  "''.mp4'' \<notin> set image_extensions \<and>
   process_file (sample_env\<lparr>average_hash := (\<lambda>p. Inl (Raised ''no image''))\<rparr>)
     ''in/v.MP4'' ''.mp4'' image_extensions video_extensions ''out/images'' ''out/videos''
     sample_state =
   process_file (sample_env\<lparr>average_hash := (\<lambda>p. Inr ''0000000000000000'')\<rparr>)
     ''in/v.MP4'' ''.mp4'' image_extensions video_extensions ''out/images'' ''out/videos''
     sample_state"
proof -
  have a: "''.mp4'' \<notin> set image_extensions"
    by (simp add: image_extensions_def)
  show ?thesis
    using a video_never_fingerprinted [OF a] by simp
qed

section \<open>Duplicate ordinals\<close>




section \<open>The metadata readers\<close>




section \<open>Letter case of the extension\<close>






section \<open>Where a copied file goes\<close>



lemma splitext_b: "splitext ''b.JPG'' = (''b'', ''.JPG'')"
  by (simp add: splitext_def rfind_def Let_def upt_rec)




lemma sample_copy_a:
  "(''in/a.jpg'', ''out/images/2023-05-01-ffff0000ffff0000.jpg'') \<in>
     set (copies (fst (process_file sample_env ''in/a.jpg'' ''.jpg'' image_extensions
       video_extensions ''out/images'' ''out/videos'' sample_state)))"
  by (simp add: process_sample_a)

lemma process_sample_b_first:
  "fst (process_file sample_env ''in/b.JPG'' ''.jpg'' image_extensions video_extensions
     ''out/images'' ''out/videos'' sample_state) =
   [Copy2 ''in/b.JPG'' ''out/images/2023-05-01-ffff0000ffff0000.jpg'',
    FileCopied ''b.JPG'' ''2023:05:01 10:00:00'' ''uuid-0''
      ''out/images/2023-05-01-ffff0000ffff0000.jpg'']"
  by (simp add: process_file_def copy_new_def jpg_image metadata_sample hash_sample
      format_date_sample sample_state_def path_join_def basename_def rfind_def Let_def)
     (simp add: sample_env_def str_nat.simps digit_char_def)



section \<open>The destination depends on the placement inputs only\<close>

text \<open>
  Claim C8. The name and directory of a copy are computed from the kind, the timestamp
  read, the fingerprint or identifier, the count found and the extension, by operations
  on strings alone. So two calls of \<open>process_file\<close> with the same extension lists and
  output directories whose placement inputs agree copy to the same destination, whatever
  the source paths, the collaborators and the rest of the state are.
\<close>

theorem placement_deterministic:
  assumes inputs: "placement_inputs e1 p1 ext1 ie ve st1 = placement_inputs e2 p2 ext2 ie ve st2"
    and c1: "(s1, d1) \<in> set (copies (fst (process_file e1 p1 ext1 ie ve idir vdir st1)))"
    and c2: "(s2, d2) \<in> set (copies (fst (process_file e2 p2 ext2 ie ve idir vdir st2)))"
  shows "d1 = d2"
proof (cases "ext1 \<in> set ie")
  case True
  from process_file_image_copies [OF True c1]
  obtain h a where h: "average_hash e1 p1 = Inr h"
    and a: "format_date (snd (get_image_metadata e1 p1)) = Some a"
    and d1: "d1 = path_join idir (a @ ''-'' @ h @
               (case image_hashes st1 h of None \<Rightarrow> []
                | Some found \<Rightarrow> ''_duplicate_'' @ str_int (duplicate_count found)) @ ext1)"
    by blast
  have in1: "placement_inputs e1 p1 ext1 ie ve st1 =
               Some (True, snd (get_image_metadata e1 p1), h,
                 map_option duplicate_count (image_hashes st1 h), ext1)"
    using True h by (simp add: placement_inputs_def)
  have True2: "ext2 \<in> set ie"
    using inputs in1 by (auto simp: placement_inputs_def split: if_splits)
  have same: "average_hash e2 p2 = Inr h"
    "snd (get_image_metadata e2 p2) = snd (get_image_metadata e1 p1)"
    "map_option duplicate_count (image_hashes st2 h) =
       map_option duplicate_count (image_hashes st1 h)" "ext2 = ext1"
    using inputs in1 True2 by (auto simp: placement_inputs_def split: sum.splits)
  from process_file_image_copies [OF True2 c2] same a
  have d2: "d2 = path_join idir (a @ ''-'' @ h @
               (case image_hashes st2 h of None \<Rightarrow> []
                | Some found \<Rightarrow> ''_duplicate_'' @ str_int (duplicate_count found)) @ ext1)"
    by auto
  have "(case image_hashes st1 h of None \<Rightarrow> []
         | Some found \<Rightarrow> ''_duplicate_'' @ str_int (duplicate_count found)) =
        (case image_hashes st2 h of None \<Rightarrow> []
         | Some found \<Rightarrow> ''_duplicate_'' @ str_int (duplicate_count found))"
    using same(3) by (cases "image_hashes st1 h"; cases "image_hashes st2 h") simp_all
  then show ?thesis using d1 d2 by simp
next
  case False
  from process_file_video_copies [OF False c1]
  obtain a where v: "ext1 \<in> set ve"
    and a: "format_date (snd (get_video_metadata e1 p1)) = Some a"
    and d1: "d1 = path_join vdir (a @ ''-'' @ uuid4 e1 (uuid_calls st1) @ ext1)"
    by blast
  have in1: "placement_inputs e1 p1 ext1 ie ve st1 =
               Some (False, snd (get_video_metadata e1 p1), uuid4 e1 (uuid_calls st1), None, ext1)"
    using False v by (simp add: placement_inputs_def)
  have False2: "ext2 \<notin> set ie"
    using inputs in1 by (auto simp: placement_inputs_def split: if_splits sum.splits)
  have same: "snd (get_video_metadata e2 p2) = snd (get_video_metadata e1 p1)"
    "uuid4 e2 (uuid_calls st2) = uuid4 e1 (uuid_calls st1)" "ext2 = ext1"
    using inputs in1 False2 by (auto simp: placement_inputs_def split: if_splits)
  from process_file_video_copies [OF False2 c2] same a
  have "d2 = path_join vdir (a @ ''-'' @ uuid4 e1 (uuid_calls st1) @ ext1)"
    by auto
  then show ?thesis using d1 by simp
qed

theorem placement_deterministic_witness:
  "placement_inputs sample_env ''in/a.jpg'' ''.jpg'' image_extensions video_extensions sample_state =
   placement_inputs sample_env ''in/b.JPG'' ''.jpg'' image_extensions video_extensions sample_state \<and>
   (''in/a.jpg'', ''out/images/2023-05-01-ffff0000ffff0000.jpg'') \<in>
     set (copies (fst (process_file sample_env ''in/a.jpg'' ''.jpg'' image_extensions
       video_extensions ''out/images'' ''out/videos'' sample_state))) \<and>
   (''in/b.JPG'', ''out/images/2023-05-01-ffff0000ffff0000.jpg'') \<in>
     set (copies (fst (process_file sample_env ''in/b.JPG'' ''.jpg'' image_extensions
       video_extensions ''out/images'' ''out/videos'' sample_state)))"
proof -
  have i: "placement_inputs sample_env ''in/a.jpg'' ''.jpg'' image_extensions video_extensions
             sample_state =
           placement_inputs sample_env ''in/b.JPG'' ''.jpg'' image_extensions video_extensions
             sample_state"
    by (simp add: placement_inputs_def jpg_image hash_sample metadata_sample)
  have b: "(''in/b.JPG'', ''out/images/2023-05-01-ffff0000ffff0000.jpg'') \<in>
     set (copies (fst (process_file sample_env ''in/b.JPG'' ''.jpg'' image_extensions
       video_extensions ''out/images'' ''out/videos'' sample_state)))"
    by (simp add: process_sample_b_first)
  show ?thesis
    using i sample_copy_a b placement_deterministic [OF i sample_copy_a b] by simp
qed

section \<open>The date of a duplicate\<close>




end
